theory Spec2Isabelle
  imports Main
begin

section \<open>The commit quick pick of GitLens (src/quickpicks/commitQuickPick.ts)\<close>

text \<open>
  The module builds the item list of a picker for one commit, binds the keys
  \<^verbatim>\<open>left\<close>, \<^verbatim>\<open>,\<close> and \<^verbatim>\<open>.\<close> in a keyboard scope, shows the picker and returns
  the pick. The code is TypeScript over the objects of the host; the embedding makes
  its effects explicit:

  \<^item> commit objects live in a store (\<open>Heap\<close>) and are passed by address, because the
    lazily resolved key commands assign to \<^verbatim>\<open>nextSha\<close> of objects that are shared
    with a log;
  \<^item> every call of a host service is appended to a trace of events;
  \<^item> the services themselves (log query, remotes, picker, helpers for strings and
    URIs) are not part of the file: they are parameters, collected in the records
    \<open>Host\<close> and \<open>Lib\<close>. A service sees the whole world (store and trace), so its
    answers may differ from call to call. The log query and
    \<^verbatim>\<open>resolvePreviousFileSha\<close> hand back the store as well, since they create or
    complete commit objects. A service answers with a value of its declared type: a
    promise that rejects is outside the model.
\<close>

subsection \<open>Data model\<close>

type_synonym Uri = string
type_synonym addr = nat

record GitFile =
  fileName :: string
  status :: string

text \<open>
  The fields of \<^verbatim>\<open>GitLogCommit\<close> that the module reads or writes. \<^verbatim>\<open>undefined\<close> is
  \<open>None\<close>.
\<close>

record GitLogCommit =
  sha :: string
  repoPath :: string
  author :: string
  message :: string
  files :: "GitFile list"
  previousSha :: "string option"
  nextSha :: "string option"
  previousFileSha :: string
  isStash :: bool

text \<open>
  \<^verbatim>\<open>GitLog.commits\<close> is a \<^verbatim>\<open>Map<string, GitLogCommit>\<close>, which iterates in insertion
  order: an association list from sha to the address of the commit object.
\<close>

record GitLog =
  commits :: "(string \<times> addr) list"
  truncated :: bool
  sha :: "string option"

type_synonym Heap = "addr \<Rightarrow> GitLogCommit"

type_synonym GitRemote = string

datatype Commands =
    StashApply
  | StashDelete
  | DiffDirectory
  | DiffWithPrevious
  | CopyShaToClipboard
  | CopyMessageToClipboard
  | ShowQuickCommitDetails

datatype Keys = left | right | comma | period

text \<open>
  The items of the picker, one constructor for each class the module instantiates, and
  the argument payloads of the commands. \<open>CommandQuickPickItem\<close> carries the label and
  description of its \<^verbatim>\<open>QuickPickItem\<close>, the command and its arguments; the items that
  open files carry their URIs, label and description. The arguments of a command are
  listed in the order of the fields in the source: \<open>StashApplyCommandArgs\<close> is
  \<^verbatim>\<open>confirm\<close>, \<^verbatim>\<open>deleteAfter\<close>, \<^verbatim>\<open>stashItem\<close>, \<^verbatim>\<open>goBackCommand\<close>;
  \<open>DiffDirectoryCommandArgs\<close> is \<^verbatim>\<open>ref1\<close>, \<^verbatim>\<open>ref2\<close>;
  \<open>CopyMessageToClipboardCommandArgs\<close> is \<^verbatim>\<open>message\<close>, \<^verbatim>\<open>sha\<close>;
  \<open>ShowQuickCommitDetailsCommandArgs\<close> is \<^verbatim>\<open>commit\<close>, \<^verbatim>\<open>repoLog\<close>, \<^verbatim>\<open>sha\<close>,
  \<^verbatim>\<open>goBackCommand\<close>.
\<close>

datatype QuickPickItem =
    CommandQuickPickItem string string Commands "CommandArg list"
  | KeyCommandQuickPickItem Commands "CommandArg list"
  | ShowCommitInViewQuickPickItem addr
  | OpenRemotesCommandQuickPickItem "GitRemote list" string "QuickPickItem option"
  | OpenCommitFilesCommandQuickPickItem "Uri list" string string
  | OpenCommitFileRevisionsCommandQuickPickItem "Uri list" string string
  | CommitWithFileStatusQuickPickItem Uri string string GitLogCommit string
and CommandArg =
    UriArg Uri
  | StashApplyCommandArgs bool bool addr "QuickPickItem option"
  | StashDeleteCommandArgs bool addr "QuickPickItem option"
  | DiffDirectoryCommandArgs "string option" "string option"
  | CopyShaToClipboardCommandArgs string
  | CopyMessageToClipboardCommandArgs string string
  | ShowQuickCommitDetailsCommandArgs "addr option" "GitLog option" "string option"
      "QuickPickItem option"

text \<open>
  A \<^verbatim>\<open>KeyCommand\<close> is the no-op command of the keyboard module or an item. A key is
  bound to a command or to a function that produces one; the two closures of
  \<^verbatim>\<open>show\<close> are represented by their captured variables \<^verbatim>\<open>commit\<close>, \<^verbatim>\<open>repoLog\<close> and
  \<^verbatim>\<open>goBackCommand\<close>.
\<close>

datatype KeyCommand = KeyNoopCommand | ItemCommand QuickPickItem

datatype KeyBinding =
    Static QuickPickItem
  | PreviousCallback addr "GitLog option" "QuickPickItem option"
  | NextCallback addr "GitLog option" "QuickPickItem option"

type_synonym KeyMapping = "(Keys \<times> KeyBinding option) list"

record LogOptions =
  maxCount :: int
  reverse :: "bool option"
  ref :: string

record QuickPickOptions =
  matchOnDescription :: bool
  matchOnDetail :: bool
  placeHolder :: string
  ignoreFocusOut :: bool

datatype Event =
    EvResolvePreviousFileSha addr
  | EvGetRemotes string
  | EvGetLog string LogOptions
  | EvBeginScope KeyMapping
  | EvShowQuickPick "QuickPickItem list" QuickPickOptions
  | EvSetKeyCommand Keys QuickPickItem
  | EvOnDidSelect QuickPickItem
  | EvScopeDispose

record World =
  heap :: Heap
  trace :: "Event list"

text \<open>
  The services of the host. \<open>showQuickPick\<close> answers with the items the user moved
  over while the picker was open (the host calls \<^verbatim>\<open>onDidSelectItem\<close> for each) and
  the final pick, \<open>None\<close> when the picker was dismissed.
\<close>

record Host =
  getLog :: "string \<Rightarrow> LogOptions \<Rightarrow> World \<Rightarrow> GitLog option \<times> Heap"
  getRemotes :: "string \<Rightarrow> World \<Rightarrow> GitRemote list"
  resolvePreviousFileSha :: "addr \<Rightarrow> World \<Rightarrow> Heap"
  showQuickPick ::
    "QuickPickItem list \<Rightarrow> QuickPickOptions \<Rightarrow> World \<Rightarrow> QuickPickItem list \<times> QuickPickItem option"
  hasOnDidSelect :: "QuickPickItem \<Rightarrow> bool"
  getQuickPickIgnoreFocusOut :: bool
  maxListItems :: int

text \<open>
  The pure helpers the module imports (\<^verbatim>\<open>Strings.pad\<close>, \<^verbatim>\<open>GlyphChars\<close>,
  \<^verbatim>\<open>Arrays.filterMap\<close>, \<^verbatim>\<open>paths.basename\<close>, \<^verbatim>\<open>GitFile\<close>, \<^verbatim>\<open>GitUri\<close>) and the getters and
  methods of a commit that are computed from its fields.
\<close>

record Lib =
  pad :: "string \<Rightarrow> nat \<Rightarrow> nat \<Rightarrow> string"
  filterMap :: "GitFile list \<Rightarrow> (GitFile \<Rightarrow> Uri option) \<Rightarrow> Uri list"
  Dash :: string
  Space :: string
  Dot :: string
  basename :: "string \<Rightarrow> string"
  getStatusOcticon :: "string \<Rightarrow> string"
  getFormattedDirectory :: "GitFile \<Rightarrow> bool \<Rightarrow> string"
  fromFile :: "GitFile \<Rightarrow> string \<Rightarrow> Uri option"
  toRevisionUri :: "string \<Rightarrow> GitFile \<Rightarrow> string \<Rightarrow> Uri"
  shortSha :: "GitLogCommit \<Rightarrow> string"
  previousFileShortSha :: "GitLogCommit \<Rightarrow> string"
  formattedDate :: "GitLogCommit \<Rightarrow> string"
  getShortMessage :: "GitLogCommit \<Rightarrow> string"
  getFormattedDiffStatus :: "GitLogCommit \<Rightarrow> string"
  commitUri :: "GitLogCommit \<Rightarrow> Uri"
  previousUri :: "GitLogCommit \<Rightarrow> Uri"
  nextUri :: "GitLogCommit \<Rightarrow> Uri"
  toFileCommit :: "GitLogCommit \<Rightarrow> GitFile \<Rightarrow> GitLogCommit"

subsection \<open>Small operations\<close>

definition emit :: "Event \<Rightarrow> World \<Rightarrow> World" where
  "emit e w = w\<lparr>trace := trace w @ [e]\<rparr>"

text \<open>\<^verbatim>\<open>log && log.commits.get(key)\<close>\<close>

definition commits_get :: "GitLog option \<Rightarrow> string \<Rightarrow> addr option" where
  "commits_get log k = (case log of None \<Rightarrow> None | Some l \<Rightarrow> map_of (commits l) k)"

text \<open>
  Modelled from the spec: \<^verbatim>\<open>Iterables.first\<close> of the module \<^verbatim>\<open>system\<close>, which is not
  among the sources. A commit log is an ordered collection of commits; the first of
  its values is the first entry, and there is none (\<^verbatim>\<open>undefined\<close>) in an empty log.
  The whole expression is \<^verbatim>\<open>nextLog && Iterables.first(nextLog.commits.values())\<close>.
\<close>

definition commits_first :: "GitLog option \<Rightarrow> addr option" where
  "commits_first log =
     (case log of
        None \<Rightarrow> None
      | Some l \<Rightarrow> (case commits l of [] \<Rightarrow> None | (k, a) # rest \<Rightarrow> Some a))"

text \<open>
  The test \<^verbatim>\<open>c === undefined || c.previousSha === undefined\<close> (and the same for
  \<^verbatim>\<open>nextSha\<close>) on a variable that holds a commit object or \<^verbatim>\<open>undefined\<close>.
\<close>

definition undefined_or :: "(GitLogCommit \<Rightarrow> string option) \<Rightarrow> Heap \<Rightarrow> addr option \<Rightarrow> bool" where
  "undefined_or field h c = (case c of None \<Rightarrow> True | Some a \<Rightarrow> field (h a) = None)"

text \<open>\<^verbatim>\<open>Container.git.getLog(repoPath, options)\<close>: the call is recorded, then answered.\<close>

definition call_getLog :: "Host \<Rightarrow> string \<Rightarrow> LogOptions \<Rightarrow> World \<Rightarrow> GitLog option \<times> World" where
  "call_getLog H rp opts w =
     (let w1 = emit (EvGetLog rp opts) w;
          (log, h) = getLog H rp opts w1
      in (log, w1\<lparr>heap := h\<rparr>))"

subsection \<open>The lazily resolved previous command (lines 317 to 346)\<close>

text \<open>
  The first half of the closure: the variables \<^verbatim>\<open>log\<close> and \<^verbatim>\<open>c\<close> when the
  \<^verbatim>\<open>if\<close> block of lines 322 to 333 is left.
\<close>

definition previousCommand_resolve ::
  "Host \<Rightarrow> addr \<Rightarrow> GitLog option \<Rightarrow> World \<Rightarrow> GitLog option \<times> addr option \<times> World" where
  "previousCommand_resolve H commit repoLog w =
     (let log = repoLog;
          c = commits_get log (GitLogCommit.sha (heap w commit))
      in if undefined_or previousSha (heap w) c then
           (let (log, w) =
                  call_getLog H (repoPath (heap w commit))
                    \<lparr>maxCount = maxListItems H, reverse = None,
                     ref = GitLogCommit.sha (heap w commit)\<rparr> w;
                c = commits_get log (GitLogCommit.sha (heap w commit))
            in case c of
                 None \<Rightarrow> (log, c, w)
               | Some a \<Rightarrow>
                   (log, c,
                    w\<lparr>heap := (heap w)(a := (heap w a)\<lparr>nextSha := nextSha (heap w commit)\<rparr>)\<rparr>))
         else (log, c, w))"

definition previousCommand ::
  "Host \<Rightarrow> Lib \<Rightarrow> addr \<Rightarrow> GitLog option \<Rightarrow> QuickPickItem option \<Rightarrow> World \<Rightarrow> KeyCommand \<times> World" where
  "previousCommand H L commit repoLog goBackCommand w =
     (let (log, c, w) = previousCommand_resolve H commit repoLog w
      in case c of
           None \<Rightarrow> (KeyNoopCommand, w)
         | Some a \<Rightarrow>
             (case previousSha (heap w a) of
                None \<Rightarrow> (KeyNoopCommand, w)
              | Some p \<Rightarrow>
                  (ItemCommand
                     (KeyCommandQuickPickItem ShowQuickCommitDetails
                        [UriArg (previousUri L (heap w a)),
                         ShowQuickCommitDetailsCommandArgs None log (Some p) goBackCommand]),
                   w)))"

subsection \<open>The lazily resolved next command (lines 348 to 378)\<close>

definition nextCommand_resolve ::
  "Host \<Rightarrow> addr \<Rightarrow> GitLog option \<Rightarrow> World \<Rightarrow> GitLog option \<times> addr option \<times> World" where
  "nextCommand_resolve H commit repoLog w =
     (let log = repoLog;
          c = commits_get log (GitLogCommit.sha (heap w commit))
      in if undefined_or nextSha (heap w) c then
           (let (nextLog, w) =
                  call_getLog H (repoPath (heap w commit))
                    \<lparr>maxCount = 1, reverse = Some True,
                     ref = GitLogCommit.sha (heap w commit)\<rparr> w
            in case commits_first nextLog of
                 None \<Rightarrow> (None, None, w)
               | Some n \<Rightarrow>
                   if GitLogCommit.sha (heap w n) \<noteq> GitLogCommit.sha (heap w commit) then
                     (None, Some commit,
                      w\<lparr>heap := (heap w)
                           (commit := (heap w commit)\<lparr>nextSha := Some (GitLogCommit.sha (heap w n))\<rparr>)\<rparr>)
                   else (None, None, w))
         else (log, c, w))"

definition nextCommand ::
  "Host \<Rightarrow> Lib \<Rightarrow> addr \<Rightarrow> GitLog option \<Rightarrow> QuickPickItem option \<Rightarrow> World \<Rightarrow> KeyCommand \<times> World" where
  "nextCommand H L commit repoLog goBackCommand w =
     (let (log, c, w) = nextCommand_resolve H commit repoLog w
      in case c of
           None \<Rightarrow> (KeyNoopCommand, w)
         | Some a \<Rightarrow>
             (case nextSha (heap w a) of
                None \<Rightarrow> (KeyNoopCommand, w)
              | Some n \<Rightarrow>
                  (ItemCommand
                     (KeyCommandQuickPickItem ShowQuickCommitDetails
                        [UriArg (nextUri L (heap w a)),
                         ShowQuickCommitDetailsCommandArgs None log (Some n) goBackCommand]),
                   w)))"

text \<open>
  What a key binding yields when its key is pressed: the command itself, or the result
  of calling the closure.
\<close>

fun invoke :: "Host \<Rightarrow> Lib \<Rightarrow> KeyBinding \<Rightarrow> World \<Rightarrow> KeyCommand \<times> World" where
  "invoke H L (Static item) w = (ItemCommand item, w)"
| "invoke H L (PreviousCallback commit repoLog goBackCommand) w =
     previousCommand H L commit repoLog goBackCommand w"
| "invoke H L (NextCallback commit repoLog goBackCommand) w =
     nextCommand H L commit repoLog goBackCommand w"

text \<open>
  The sha a key command navigates to: the \<^verbatim>\<open>sha\<close> of the arguments of the
  \<^verbatim>\<open>ShowQuickCommitDetails\<close> command that the two closures build.
\<close>

fun command_sha :: "KeyCommand \<Rightarrow> string option" where
  "command_sha (ItemCommand (KeyCommandQuickPickItem ShowQuickCommitDetails
      [UriArg u, ShowQuickCommitDetailsCommandArgs c l s g])) = s"
| "command_sha k = None"

subsection \<open>The item classes of the module (lines 38 to 107)\<close>

text \<open>
  The constructors of the three classes. Each passes a URI or a list of URIs and a
  label with a description to the constructor of its base class;
  \<open>CommitWithFileStatusQuickPickItem\<close> also keeps the commit of the file and the status.
  The optional parameter \<^verbatim>\<open>item\<close> replaces the label and description.
\<close>

definition new_CommitWithFileStatusQuickPickItem :: "Lib \<Rightarrow> GitLogCommit \<Rightarrow> GitFile \<Rightarrow> QuickPickItem" where
  "new_CommitWithFileStatusQuickPickItem L commit file =
     (let octicon = getStatusOcticon L (status file);
          description = getFormattedDirectory L file True
      in CommitWithFileStatusQuickPickItem
           (toRevisionUri L (GitLogCommit.sha commit) file (repoPath commit))
           (pad L octicon 4 2 @ '' '' @ basename L (fileName file))
           description
           (toFileCommit L commit file)
           (status file))"

definition new_OpenCommitFilesCommandQuickPickItem ::
  "Lib \<Rightarrow> GitLogCommit \<Rightarrow> (string \<times> string) option \<Rightarrow> QuickPickItem" where
  "new_OpenCommitFilesCommandQuickPickItem L commit item =
     (let repoPath = repoPath commit;
          uris = filterMap L (files commit) (\<lambda>f. fromFile L f repoPath);
          (label, description) =
            (case item of None \<Rightarrow> (''$(file-symlink-file) Open Files'', []) | Some i \<Rightarrow> i)
      in OpenCommitFilesCommandQuickPickItem uris label description)"

definition new_OpenCommitFileRevisionsCommandQuickPickItem ::
  "Lib \<Rightarrow> GitLogCommit \<Rightarrow> (string \<times> string) option \<Rightarrow> QuickPickItem" where
  "new_OpenCommitFileRevisionsCommandQuickPickItem L commit item =
     (let uris =
            filterMap L (files commit)
              (\<lambda>f. Some (toRevisionUri L
                           (if status f = ''D'' then previousFileSha commit else GitLogCommit.sha commit)
                           f (repoPath commit)));
          (label, description) =
            (case item of
               None \<Rightarrow>
                 (''$(file-symlink-file) Open Revisions'',
                  pad L (Dash L) 2 3 @ '' in '' @ Space L @ ''$(git-commit) '' @ shortSha L commit)
             | Some i \<Rightarrow> i)
      in OpenCommitFileRevisionsCommandQuickPickItem uris label description)"

subsection \<open>\<^verbatim>\<open>CommitQuickPick.show\<close>: the item list (lines 119 to 283)\<close>

text \<open>
  \<^verbatim>\<open>items.splice(index++, 0, item)\<close> inserts the item at \<^verbatim>\<open>index\<close> (a start beyond
  the end is the end) and increments \<^verbatim>\<open>index\<close>.
\<close>

definition splice0 :: "nat \<Rightarrow> 'a \<Rightarrow> 'a list \<Rightarrow> 'a list" where
  "splice0 i x xs = take i xs @ [x] @ drop i xs"

definition splice_next :: "'a \<Rightarrow> 'a list \<times> nat \<Rightarrow> 'a list \<times> nat" where
  "splice_next x st = (case st of (items, index) \<Rightarrow> (splice0 index x items, index + 1))"

definition call_getRemotes :: "Host \<Rightarrow> string \<Rightarrow> World \<Rightarrow> GitRemote list \<times> World" where
  "call_getRemotes H rp w =
     (let w1 = emit (EvGetRemotes rp) w
      in (getRemotes H rp w1, w1))"

text \<open>
  Lines 127 to 185: the items of a stash, or of a commit with its remotes. The variable
  \<^verbatim>\<open>stash\<close> was read from the commit before.
\<close>

definition show_head_items ::
  "Host \<Rightarrow> Lib \<Rightarrow> bool \<Rightarrow> addr \<Rightarrow> QuickPickItem option \<Rightarrow> QuickPickItem list \<times> nat \<Rightarrow> World \<Rightarrow>
     (QuickPickItem list \<times> nat) \<times> World" where
  "show_head_items H L stash commit currentCommand st w =
     (if stash then
        (let st = splice_next
               (CommandQuickPickItem ''$(git-pull-request) Apply Stashed Changes''
                  (pad L (Dash L) 2 3 @ '' '' @ getShortMessage L (heap w commit))
                  StashApply
                  [StashApplyCommandArgs True False commit currentCommand]) st;
             st = splice_next
               (CommandQuickPickItem ''$(x) Delete Stashed Changes''
                  (pad L (Dash L) 2 3 @ '' '' @ getShortMessage L (heap w commit))
                  StashDelete
                  [StashDeleteCommandArgs True commit currentCommand]) st;
             st = splice_next (ShowCommitInViewQuickPickItem commit) st
         in (st, w))
      else
        (let st = splice_next (ShowCommitInViewQuickPickItem commit) st;
             (remotes, w) = call_getRemotes H (repoPath (heap w commit)) w
         in if remotes \<noteq> [] then
              (splice_next
                 (OpenRemotesCommandQuickPickItem remotes (GitLogCommit.sha (heap w commit))
                    currentCommand) st,
               w)
            else (st, w)))"

text \<open>Lines 187 to 279: the items every commit has, and the copy of the commit id.\<close>

definition show_tail_items ::
  "Lib \<Rightarrow> bool \<Rightarrow> addr \<Rightarrow> Uri \<Rightarrow> QuickPickItem option \<Rightarrow> GitLog option \<Rightarrow> GitLogCommit \<Rightarrow>
     QuickPickItem list \<times> nat \<Rightarrow> QuickPickItem list \<times> nat" where
  "show_tail_items L stash commit uri goBackCommand repoLog c st =
     (let st = splice_next (new_OpenCommitFilesCommandQuickPickItem L c None) st;
          st = splice_next (new_OpenCommitFileRevisionsCommandQuickPickItem L c None) st;
          st = splice_next
            (CommandQuickPickItem ''$(git-compare) Open Directory Compare with Previous Revision''
               (pad L (Dash L) 2 3 @ '' $(git-commit) '' @ previousFileShortSha L c @ '' '' @ Space L
                  @ '' $(git-compare) '' @ Space L @ '' $(git-commit) '' @ shortSha L c)
               DiffDirectory
               [UriArg (commitUri L c),
                DiffDirectoryCommandArgs (Some (previousFileSha c)) (Some (GitLogCommit.sha c))]) st;
          st = splice_next
            (CommandQuickPickItem ''$(git-compare) Open Directory Compare with Working Tree''
               (pad L (Dash L) 2 3 @ '' $(git-commit) '' @ shortSha L c @ '' '' @ Space L
                  @ '' $(git-compare) '' @ Space L @ '' $(file-directory) Working Tree'')
               DiffDirectory
               [UriArg uri, DiffDirectoryCommandArgs (Some (GitLogCommit.sha c)) None]) st;
          st = (if \<not> stash then
                  splice_next
                    (CommandQuickPickItem ''$(clippy) Copy Commit ID to Clipboard''
                       (pad L (Dash L) 2 3 @ '' '' @ shortSha L c)
                       CopyShaToClipboard
                       [UriArg uri, CopyShaToClipboardCommandArgs (GitLogCommit.sha c)]) st
                else st);
          st = splice_next
            (CommandQuickPickItem ''$(clippy) Copy Commit Message to Clipboard''
               (pad L (Dash L) 2 3 @ '' '' @ getShortMessage L c)
               CopyMessageToClipboard
               [UriArg uri, CopyMessageToClipboardCommandArgs (message c) (GitLogCommit.sha c)]) st;
          st = splice_next
            (CommandQuickPickItem ''Changed Files''
               (getFormattedDiffStatus L c)
               ShowQuickCommitDetails
               [UriArg uri,
                ShowQuickCommitDetailsCommandArgs (Some commit) repoLog (Some (GitLogCommit.sha c))
                  goBackCommand]) st
      in st)"

text \<open>Lines 119 to 279: the file items, and the command items spliced in front of them.\<close>

definition show_commit_items ::
  "Host \<Rightarrow> Lib \<Rightarrow> addr \<Rightarrow> Uri \<Rightarrow> QuickPickItem option \<Rightarrow> QuickPickItem option \<Rightarrow> GitLog option \<Rightarrow>
     World \<Rightarrow> QuickPickItem list \<times> World" where
  "show_commit_items H L commit uri goBackCommand currentCommand repoLog w =
     (let st = (map (new_CommitWithFileStatusQuickPickItem L (heap w commit)) (files (heap w commit)),
                0::nat);
          stash = isStash (heap w commit);
          (st, w) = show_head_items H L stash commit currentCommand st w;
          st = show_tail_items L stash commit uri goBackCommand repoLog (heap w commit) st
      in (fst st, w))"

text \<open>Lines 281 to 283: the go-back command, when there is one, becomes the first item.\<close>

definition show_items ::
  "Host \<Rightarrow> Lib \<Rightarrow> addr \<Rightarrow> Uri \<Rightarrow> QuickPickItem option \<Rightarrow> QuickPickItem option \<Rightarrow> GitLog option \<Rightarrow>
     World \<Rightarrow> QuickPickItem list \<times> World" where
  "show_items H L commit uri goBackCommand currentCommand repoLog w =
     (let (items, w) = show_commit_items H L commit uri goBackCommand currentCommand repoLog w
      in (case goBackCommand of None \<Rightarrow> items | Some g \<Rightarrow> splice0 0 g items, w))"

subsection \<open>\<^verbatim>\<open>CommitQuickPick.show\<close>: the previous and next commands (lines 285 to 380)\<close>

text \<open>
  \<^verbatim>\<open>repoLog !== undefined && !repoLog.truncated && repoLog.sha === undefined\<close>: the log
  is the full history.
\<close>

definition fullHistory :: "GitLog option \<Rightarrow> bool" where
  "fullHistory repoLog =
     (case repoLog of None \<Rightarrow> False | Some l \<Rightarrow> \<not> truncated l \<and> GitLog.sha l = None)"

definition show_commands ::
  "Lib \<Rightarrow> bool \<Rightarrow> addr \<Rightarrow> GitLog option \<Rightarrow> QuickPickItem option \<Rightarrow> Heap \<Rightarrow>
     KeyBinding option \<times> KeyBinding option" where
  "show_commands L stash commit repoLog goBackCommand h =
     (if \<not> stash then
        (if fullHistory repoLog then
           (let previousCommand =
                  (case previousSha (h commit) of
                     None \<Rightarrow> None
                   | Some p \<Rightarrow>
                       Some (Static (KeyCommandQuickPickItem ShowQuickCommitDetails
                         [UriArg (previousUri L (h commit)),
                          ShowQuickCommitDetailsCommandArgs None repoLog (Some p) goBackCommand])));
                nextCommand =
                  (case nextSha (h commit) of
                     None \<Rightarrow> None
                   | Some n \<Rightarrow>
                       Some (Static (KeyCommandQuickPickItem ShowQuickCommitDetails
                         [UriArg (nextUri L (h commit)),
                          ShowQuickCommitDetailsCommandArgs None repoLog (Some n) goBackCommand])))
            in (previousCommand, nextCommand))
         else
           (Some (PreviousCallback commit repoLog goBackCommand),
            Some (NextCallback commit repoLog goBackCommand)))
      else (None, None))"

subsection \<open>\<^verbatim>\<open>CommitQuickPick.show\<close>: the picker session (lines 110 to 117 and 382 to 405)\<close>

text \<open>
  The callback \<^verbatim>\<open>onDidSelectItem\<close> of the picker: the item becomes the command of
  \<^verbatim>\<open>right\<close>, and its \<^verbatim>\<open>onDidSelect\<close> is called when it has one.
\<close>

definition onDidSelectItem :: "Host \<Rightarrow> QuickPickItem \<Rightarrow> World \<Rightarrow> World" where
  "onDidSelectItem H item w =
     (let w = emit (EvSetKeyCommand right item) w
      in if hasOnDidSelect H item then emit (EvOnDidSelect item) w else w)"

definition show_placeHolder :: "Lib \<Rightarrow> GitLogCommit \<Rightarrow> string" where
  "show_placeHolder L c =
     shortSha L c @ '' '' @ pad L (Dot L) 1 1 @ '' ''
       @ (if author c \<noteq> [] then author c @ '', '' else [])
       @ formattedDate L c @ '' '' @ pad L (Dot L) 1 1 @ '' '' @ getShortMessage L c"

text \<open>
  \<^verbatim>\<open>show\<close> up to the call of the picker: the items and options it passes, the key
  mapping of the scope, and the world at the call.
\<close>

record PickerCall =
  call_items :: "QuickPickItem list"
  call_options :: QuickPickOptions
  call_keys :: KeyMapping
  call_world :: World

definition show_open ::
  "Host \<Rightarrow> Lib \<Rightarrow> addr \<Rightarrow> Uri \<Rightarrow> QuickPickItem option \<Rightarrow> QuickPickItem option \<Rightarrow> GitLog option \<Rightarrow>
     World \<Rightarrow> PickerCall" where
  "show_open H L commit uri goBackCommand currentCommand repoLog w =
     (let w = emit (EvResolvePreviousFileSha commit) w;
          w = w\<lparr>heap := resolvePreviousFileSha H commit w\<rparr>;
          stash = isStash (heap w commit);
          (items, w) = show_items H L commit uri goBackCommand currentCommand repoLog w;
          (previousCommand, nextCommand) =
            show_commands L stash commit repoLog goBackCommand (heap w);
          keys = [(left, map_option Static goBackCommand),
                  (comma, previousCommand),
                  (period, nextCommand)];
          w = emit (EvBeginScope keys) w;
          options = \<lparr>matchOnDescription = True, matchOnDetail = True,
                     placeHolder = show_placeHolder L (heap w commit),
                     ignoreFocusOut = getQuickPickIgnoreFocusOut H\<rparr>;
          w = emit (EvShowQuickPick items options) w
      in \<lparr>call_items = items, call_options = options, call_keys = keys, call_world = w\<rparr>)"

definition "show" ::
  "Host \<Rightarrow> Lib \<Rightarrow> addr \<Rightarrow> Uri \<Rightarrow> QuickPickItem option \<Rightarrow> QuickPickItem option \<Rightarrow> GitLog option \<Rightarrow>
     World \<Rightarrow> QuickPickItem option \<times> World" where
  "show H L commit uri goBackCommand currentCommand repoLog w =
     (let call = show_open H L commit uri goBackCommand currentCommand repoLog w;
          (moved, pick) =
            showQuickPick H (call_items call) (call_options call) (call_world call);
          w = fold (onDidSelectItem H) moved (call_world call);
          w = emit EvScopeDispose w
      in (pick, w))"

subsection \<open>Observations on items, key mappings and traces\<close>

text \<open>
  \<open>key_binding\<close> is \<^verbatim>\<open>mapping[key]\<close>: \<open>None\<close> for a key that is absent or bound to
  \<^verbatim>\<open>undefined\<close>. \<open>item_command\<close> is the command of a \<open>CommandQuickPickItem\<close>. The events of
  one call of \<open>onDidSelectItem\<close> are listed by \<open>onDidSelectItem_events\<close>, and
  \<open>selection_event\<close> holds for the events such a call can add: setting the command of
  \<^verbatim>\<open>right\<close>, and \<^verbatim>\<open>onDidSelect\<close>.
\<close>

definition key_binding :: "KeyMapping \<Rightarrow> Keys \<Rightarrow> KeyBinding option" where
  "key_binding m k = (case map_of m k of None \<Rightarrow> None | Some b \<Rightarrow> b)"

fun item_command :: "QuickPickItem \<Rightarrow> Commands option" where
  "item_command (CommandQuickPickItem l d c args) = Some c"
| "item_command item = None"

fun is_OpenCommitFiles :: "QuickPickItem \<Rightarrow> bool" where
  "is_OpenCommitFiles (OpenCommitFilesCommandQuickPickItem uris l d) = True"
| "is_OpenCommitFiles item = False"

fun is_OpenCommitFileRevisions :: "QuickPickItem \<Rightarrow> bool" where
  "is_OpenCommitFileRevisions (OpenCommitFileRevisionsCommandQuickPickItem uris l d) = True"
| "is_OpenCommitFileRevisions item = False"

definition onDidSelectItem_events :: "Host \<Rightarrow> QuickPickItem \<Rightarrow> Event list" where
  "onDidSelectItem_events H item =
     EvSetKeyCommand right item # (if hasOnDidSelect H item then [EvOnDidSelect item] else [])"

fun selection_event :: "Event \<Rightarrow> bool" where
  "selection_event (EvSetKeyCommand k item) = (k = right)"
| "selection_event (EvOnDidSelect item) = True"
| "selection_event e = False"

subsection \<open>A small world for evaluating the model\<close>

text \<open>
  A repository with the history \<open>a\<close>, \<open>b\<close>, \<open>c\<close> (oldest first) and a stash \<open>s\<close>. The
  commit object at address 0 is \<open>b\<close> as a caller holds it, without adjacency; the
  object at address 1 is \<open>b\<close> as a log query creates it; 2 is \<open>c\<close>, 3 the stash and 4
  is \<open>a\<close>. The log query answers a reverse query with the newest commit, a query for
  \<open>b\<close> with \<open>b\<close> and \<open>a\<close>, and any other query with no log.
\<close>

definition demo_commit :: GitLogCommit where
  "demo_commit =
     \<lparr>GitLogCommit.sha = ''b'', repoPath = ''/repo'', author = ''ann'', message = ''fix'',
      files = [\<lparr>fileName = ''src/a.ts'', status = ''M''\<rparr>],
      previousSha = None, nextSha = None, previousFileSha = ''a'', isStash = False\<rparr>"

definition demo_heap :: Heap where
  "demo_heap =
     (\<lambda>a. demo_commit)
       (1 := demo_commit\<lparr>previousSha := Some ''a''\<rparr>,
        2 := demo_commit\<lparr>GitLogCommit.sha := ''c'', previousSha := Some ''b''\<rparr>,
        3 := demo_commit\<lparr>GitLogCommit.sha := ''s'', isStash := True\<rparr>,
        4 := demo_commit\<lparr>GitLogCommit.sha := ''a'', nextSha := Some ''b''\<rparr>)"

definition demo_World :: World where
  "demo_World = \<lparr>heap = demo_heap, trace = []\<rparr>"

definition demo_log :: GitLog where
  "demo_log = \<lparr>commits = [(''b'', 1), (''a'', 4)], truncated = False, sha = Some ''b''\<rparr>"

definition demo_Host :: Host where
  "demo_Host =
     \<lparr>getLog = (\<lambda>rp opts w.
         (if reverse opts = Some True then
            Some \<lparr>commits = [(''c'', 2)], truncated = True, sha = Some (ref opts)\<rparr>
          else if ref opts = ''b'' then Some demo_log
          else None,
          heap w)),
      getRemotes = (\<lambda>rp w. [''origin'']),
      resolvePreviousFileSha = (\<lambda>a w. heap w),
      showQuickPick = (\<lambda>its opts w. (take 1 its, case its of [] \<Rightarrow> None | x # xs \<Rightarrow> Some x)),
      hasOnDidSelect = (\<lambda>it. False),
      getQuickPickIgnoreFocusOut = True,
      maxListItems = 200\<rparr>"

definition demo_goBack :: QuickPickItem where
  "demo_goBack = CommandQuickPickItem ''go back'' [] ShowQuickCommitDetails [UriArg ''u'']"

definition demo_Lib :: Lib where
  "demo_Lib =
     \<lparr>pad = (\<lambda>s m n. replicate m CHR '' '' @ s @ replicate n CHR '' ''),
      filterMap = (\<lambda>xs f. List.map_filter f xs),
      Dash = ''-'', Space = '' '', Dot = ''.'',
      basename = (\<lambda>p. p),
      getStatusOcticon = (\<lambda>s. s),
      getFormattedDirectory = (\<lambda>f relative. fileName f),
      fromFile = (\<lambda>f rp. Some (rp @ ''/'' @ fileName f)),
      toRevisionUri = (\<lambda>r f rp. rp @ ''/'' @ fileName f @ ''@'' @ r),
      shortSha = (\<lambda>c. take 7 (GitLogCommit.sha c)),
      previousFileShortSha = (\<lambda>c. take 7 (previousFileSha c)),
      formattedDate = (\<lambda>c. ''today''),
      getShortMessage = (\<lambda>c. message c),
      getFormattedDiffStatus = (\<lambda>c. ''+1 ~0 -0''),
      commitUri = (\<lambda>c. repoPath c),
      previousUri = (\<lambda>c. repoPath c),
      nextUri = (\<lambda>c. repoPath c),
      toFileCommit = (\<lambda>c f. c\<lparr>files := [f]\<rparr>)\<rparr>"

section \<open>Properties\<close>

subsection \<open>The two halves of the lazily resolved commands\<close>

lemmas demo_defs =
  demo_Host_def demo_Lib_def demo_World_def demo_heap_def demo_commit_def demo_log_def

lemma call_getLog_eq:
  "call_getLog H rp opts w =
     (fst (getLog H rp opts (emit (EvGetLog rp opts) w)),
      \<lparr>heap = snd (getLog H rp opts (emit (EvGetLog rp opts) w)),
       trace = trace w @ [EvGetLog rp opts]\<rparr>)"
  by (simp add: call_getLog_def emit_def Let_def split: prod.splits)

lemma previousCommand_resolve_cached:
  "\<not> undefined_or previousSha (heap w) (commits_get repoLog (GitLogCommit.sha (heap w commit))) \<Longrightarrow>
   previousCommand_resolve H commit repoLog w =
     (repoLog, commits_get repoLog (GitLogCommit.sha (heap w commit)), w)"
  by (simp add: previousCommand_resolve_def Let_def)

lemma previousCommand_resolve_query:
  fixes H commit w
  defines "rp \<equiv> repoPath (heap w commit)"
    and "opts \<equiv>
      \<lparr>maxCount = maxListItems H, reverse = None, ref = GitLogCommit.sha (heap w commit)\<rparr>"
  assumes "undefined_or previousSha (heap w) (commits_get repoLog (GitLogCommit.sha (heap w commit)))"
    and "getLog H rp opts (emit (EvGetLog rp opts) w) = (log, h)"
  shows "previousCommand_resolve H commit repoLog w =
     (log, commits_get log (GitLogCommit.sha (h commit)),
      \<lparr>heap = (case commits_get log (GitLogCommit.sha (h commit)) of
                 None \<Rightarrow> h
               | Some a \<Rightarrow> h(a := (h a)\<lparr>nextSha := nextSha (h commit)\<rparr>)),
       trace = trace w @ [EvGetLog rp opts]\<rparr>)"
  using assms
  by (simp add: previousCommand_resolve_def Let_def call_getLog_eq split: option.splits)

lemma nextCommand_resolve_cached:
  "\<not> undefined_or nextSha (heap w) (commits_get repoLog (GitLogCommit.sha (heap w commit))) \<Longrightarrow>
   nextCommand_resolve H commit repoLog w =
     (repoLog, commits_get repoLog (GitLogCommit.sha (heap w commit)), w)"
  by (simp add: nextCommand_resolve_def Let_def)

lemma nextCommand_resolve_query:
  fixes H commit w
  defines "rp \<equiv> repoPath (heap w commit)"
    and "opts \<equiv> \<lparr>maxCount = 1, reverse = Some True, ref = GitLogCommit.sha (heap w commit)\<rparr>"
  assumes "undefined_or nextSha (heap w) (commits_get repoLog (GitLogCommit.sha (heap w commit)))"
    and "getLog H rp opts (emit (EvGetLog rp opts) w) = (nextLog, h)"
  shows "nextCommand_resolve H commit repoLog w =
     (case commits_first nextLog of
        None \<Rightarrow> (None, None, \<lparr>heap = h, trace = trace w @ [EvGetLog rp opts]\<rparr>)
      | Some n \<Rightarrow>
          if GitLogCommit.sha (h n) \<noteq> GitLogCommit.sha (h commit) then
            (None, Some commit,
             \<lparr>heap = h(commit := (h commit)\<lparr>nextSha := Some (GitLogCommit.sha (h n))\<rparr>),
              trace = trace w @ [EvGetLog rp opts]\<rparr>)
          else (None, None, \<lparr>heap = h, trace = trace w @ [EvGetLog rp opts]\<rparr>))"
  using assms
  by (simp add: nextCommand_resolve_def Let_def call_getLog_eq split: option.splits)

lemma undefined_or_iff:
  "undefined_or field h c \<longleftrightarrow> c = None \<or> (\<exists>a. c = Some a \<and> field (h a) = None)"
  by (simp add: undefined_or_def split: option.splits)

lemma previousCommand_trace:
  "trace (snd (previousCommand H L commit repoLog goBackCommand w)) =
     trace w @
       (if undefined_or previousSha (heap w) (commits_get repoLog (GitLogCommit.sha (heap w commit)))
        then [EvGetLog (repoPath (heap w commit))
                \<lparr>maxCount = maxListItems H, reverse = None,
                 ref = GitLogCommit.sha (heap w commit)\<rparr>]
        else [])"
proof (cases "undefined_or previousSha (heap w) (commits_get repoLog (GitLogCommit.sha (heap w commit)))")
  case True
  show ?thesis
    using True previousCommand_resolve_query [OF True surjective_pairing]
    by (simp add: previousCommand_def split: option.splits)
next
  case False
  show ?thesis
    using False previousCommand_resolve_cached [OF False, of H]
    by (simp add: previousCommand_def split: option.splits)
qed

lemma nextCommand_trace:
  "trace (snd (nextCommand H L commit repoLog goBackCommand w)) =
     trace w @
       (if undefined_or nextSha (heap w) (commits_get repoLog (GitLogCommit.sha (heap w commit)))
        then [EvGetLog (repoPath (heap w commit))
                \<lparr>maxCount = 1, reverse = Some True, ref = GitLogCommit.sha (heap w commit)\<rparr>]
        else [])"
proof (cases "undefined_or nextSha (heap w) (commits_get repoLog (GitLogCommit.sha (heap w commit)))")
  case True
  show ?thesis
    using True nextCommand_resolve_query [OF True surjective_pairing]
    by (simp add: nextCommand_def split: option.splits)
next
  case False
  show ?thesis
    using False nextCommand_resolve_cached [OF False, of H]
    by (simp add: nextCommand_def split: option.splits)
qed

subsection \<open>No-op instead of an error\<close>

text \<open>
  C1. The lazily resolved previous command returns \<open>KeyNoopCommand\<close> whenever the cached
  log cannot supply the previous sha (there is no cached log, it does not hold the
  commit, or the cached commit has no \<^verbatim>\<open>previousSha\<close>) and the fresh log query cannot
  either (it answers with no log, with a log that does not hold the commit, or with a
  commit without \<^verbatim>\<open>previousSha\<close>). The next command returns \<open>KeyNoopCommand\<close> whenever
  the cached log cannot supply the next sha and the reverse query answers with no log,
  with an empty log, or with the commit itself. Both functions are total: there is no
  error result.
\<close>

theorem unresolved_yields_KeyNoopCommand:
  fixes H commit w
  defines "rp \<equiv> repoPath (heap w commit)"
    and "key \<equiv> GitLogCommit.sha (heap w commit)"
  defines "popts \<equiv> \<lparr>maxCount = maxListItems H, reverse = None, ref = key\<rparr>"
    and "nopts \<equiv> \<lparr>maxCount = 1, reverse = Some True, ref = key\<rparr>"
  defines "pq \<equiv> getLog H rp popts (emit (EvGetLog rp popts) w)"
    and "nq \<equiv> getLog H rp nopts (emit (EvGetLog rp nopts) w)"
  shows
    "(undefined_or previousSha (heap w) (commits_get repoLog key) \<and>
      undefined_or previousSha (snd pq) (commits_get (fst pq) (GitLogCommit.sha (snd pq commit)))
      \<longrightarrow> fst (previousCommand H L commit repoLog goBackCommand w) = KeyNoopCommand) \<and>
     (undefined_or nextSha (heap w) (commits_get repoLog key) \<and>
      (case commits_first (fst nq) of
         None \<Rightarrow> True
       | Some n \<Rightarrow> GitLogCommit.sha (snd nq n) = GitLogCommit.sha (snd nq commit))
      \<longrightarrow> fst (nextCommand H L commit repoLog goBackCommand w) = KeyNoopCommand)"
proof (intro conjI impI)
  assume a: "undefined_or previousSha (heap w) (commits_get repoLog key) \<and>
      undefined_or previousSha (snd pq) (commits_get (fst pq) (GitLogCommit.sha (snd pq commit)))"
  have q: "getLog H rp popts (emit (EvGetLog rp popts) w) = (fst pq, snd pq)"
    by (simp add: pq_def)
  from a have c:
    "undefined_or previousSha (heap w) (commits_get repoLog (GitLogCommit.sha (heap w commit)))"
    by (simp add: key_def)
  show "fst (previousCommand H L commit repoLog goBackCommand w) = KeyNoopCommand"
    using a previousCommand_resolve_query [OF c q [unfolded rp_def popts_def key_def]]
    by (auto simp: previousCommand_def undefined_or_def split: option.splits)
next
  assume a: "undefined_or nextSha (heap w) (commits_get repoLog key) \<and>
      (case commits_first (fst nq) of
         None \<Rightarrow> True
       | Some n \<Rightarrow> GitLogCommit.sha (snd nq n) = GitLogCommit.sha (snd nq commit))"
  have q: "getLog H rp nopts (emit (EvGetLog rp nopts) w) = (fst nq, snd nq)"
    by (simp add: nq_def)
  from a have c:
    "undefined_or nextSha (heap w) (commits_get repoLog (GitLogCommit.sha (heap w commit)))"
    by (simp add: key_def)
  show "fst (nextCommand H L commit repoLog goBackCommand w) = KeyNoopCommand"
    using a nextCommand_resolve_query [OF c q [unfolded rp_def nopts_def key_def]]
    by (auto simp: nextCommand_def split: option.splits)
qed

text \<open>
  At the newest commit \<open>c\<close>, with no cached log: the query for the previous command
  finds no log, the reverse query finds \<open>c\<close> itself.
\<close>

theorem unresolved_yields_KeyNoopCommand_witness:
  "fst (previousCommand demo_Host demo_Lib 2 None None demo_World) = KeyNoopCommand \<and>
   fst (nextCommand demo_Host demo_Lib 2 None None demo_World) = KeyNoopCommand"
  using unresolved_yields_KeyNoopCommand
    [where H = demo_Host and L = demo_Lib and commit = 2 and repoLog = None
       and goBackCommand = None and w = demo_World]
  by (simp add: demo_defs undefined_or_def commits_get_def commits_first_def emit_def)

subsection \<open>When the log is queried again\<close>

text \<open>
  C2. The previous command issues a fresh log query (one \<open>EvGetLog\<close> event, for the
  repository and sha of the commit) if and only if the cached log does not hold the
  commit (there is no cached log, or it has no entry for the sha) or the cached commit
  has no \<^verbatim>\<open>previousSha\<close>. When the cached commit has a \<^verbatim>\<open>previousSha\<close>, the world is
  left as it was and the command navigates to that sha within the cached log.
\<close>

theorem previousCommand_queries_iff_cache_fails:
  fixes H commit w repoLog
  defines "cached \<equiv> commits_get repoLog (GitLogCommit.sha (heap w commit))"
  defines "query \<equiv>
    EvGetLog (repoPath (heap w commit))
      \<lparr>maxCount = maxListItems H, reverse = None, ref = GitLogCommit.sha (heap w commit)\<rparr>"
  shows
    "trace (snd (previousCommand H L commit repoLog goBackCommand w)) =
       trace w @ (if cached = None \<or> (\<exists>a. cached = Some a \<and> previousSha (heap w a) = None)
                  then [query] else []) \<and>
     (\<forall>a p. cached = Some a \<and> previousSha (heap w a) = Some p \<longrightarrow>
        previousCommand H L commit repoLog goBackCommand w =
          (ItemCommand
             (KeyCommandQuickPickItem ShowQuickCommitDetails
                [UriArg (previousUri L (heap w a)),
                 ShowQuickCommitDetailsCommandArgs None repoLog (Some p) goBackCommand]),
           w))"
proof (intro conjI allI impI)
  show "trace (snd (previousCommand H L commit repoLog goBackCommand w)) =
       trace w @ (if cached = None \<or> (\<exists>a. cached = Some a \<and> previousSha (heap w a) = None)
                  then [query] else [])"
    unfolding cached_def query_def previousCommand_trace undefined_or_iff ..
next
  fix a p
  assume "cached = Some a \<and> previousSha (heap w a) = Some p"
  then have c: "commits_get repoLog (GitLogCommit.sha (heap w commit)) = Some a"
    and p: "previousSha (heap w a) = Some p"
    by (simp_all add: cached_def)
  then have "\<not> undefined_or previousSha (heap w) (commits_get repoLog (GitLogCommit.sha (heap w commit)))"
    by (simp add: undefined_or_def)
  from previousCommand_resolve_cached [OF this, of H] c p
  show "previousCommand H L commit repoLog goBackCommand w =
          (ItemCommand
             (KeyCommandQuickPickItem ShowQuickCommitDetails
                [UriArg (previousUri L (heap w a)),
                 ShowQuickCommitDetailsCommandArgs None repoLog (Some p) goBackCommand]),
           w)"
    by (simp add: previousCommand_def)
qed

text \<open>
  Without a cached log the query for \<open>b\<close> is issued; with the log that holds \<open>b\<close> and
  its previous sha \<open>a\<close> there is no query and the command targets \<open>a\<close>.
\<close>

theorem previousCommand_queries_iff_cache_fails_witness:
  "trace (snd (previousCommand demo_Host demo_Lib 0 None None demo_World)) =
     [EvGetLog ''/repo'' \<lparr>maxCount = 200, reverse = None, ref = ''b''\<rparr>] \<and>
   previousCommand demo_Host demo_Lib 0 (Some demo_log) None demo_World =
     (ItemCommand
        (KeyCommandQuickPickItem ShowQuickCommitDetails
           [UriArg ''/repo'',
            ShowQuickCommitDetailsCommandArgs None (Some demo_log) (Some ''a'') None]),
      demo_World)"
  using previousCommand_queries_iff_cache_fails
      [where H = demo_Host and L = demo_Lib and commit = 0 and repoLog = None
         and goBackCommand = None and w = demo_World]
    previousCommand_queries_iff_cache_fails
      [where H = demo_Host and L = demo_Lib and commit = 0 and repoLog = "Some demo_log"
         and goBackCommand = None and w = demo_World]
  by (simp add: demo_defs commits_get_def)

text \<open>
  C7. The next command issues its fallback query, a reverse query with
  \<^verbatim>\<open>maxCount\<close> 1 for the sha of the commit, if and only if the cached log does not hold
  the commit or the cached commit has no \<^verbatim>\<open>nextSha\<close>. The fallback query of the previous
  command is not a reverse query and has the configured \<^verbatim>\<open>maxListItems\<close> as its
  \<^verbatim>\<open>maxCount\<close>.
\<close>

theorem fallback_query_options:
  fixes H commit w repoLog
  defines "cached \<equiv> commits_get repoLog (GitLogCommit.sha (heap w commit))"
  defines "nextQuery \<equiv>
    EvGetLog (repoPath (heap w commit))
      \<lparr>maxCount = 1, reverse = Some True, ref = GitLogCommit.sha (heap w commit)\<rparr>"
  defines "previousQuery \<equiv>
    EvGetLog (repoPath (heap w commit))
      \<lparr>maxCount = maxListItems H, reverse = None, ref = GitLogCommit.sha (heap w commit)\<rparr>"
  shows
    "trace (snd (nextCommand H L commit repoLog goBackCommand w)) =
       trace w @ (if cached = None \<or> (\<exists>a. cached = Some a \<and> nextSha (heap w a) = None)
                  then [nextQuery] else []) \<and>
     trace (snd (previousCommand H L commit repoLog goBackCommand w)) =
       trace w @ (if cached = None \<or> (\<exists>a. cached = Some a \<and> previousSha (heap w a) = None)
                  then [previousQuery] else [])"
  unfolding cached_def nextQuery_def previousQuery_def nextCommand_trace previousCommand_trace
    undefined_or_iff
  by simp

text \<open>
  Without a cached log both queries are issued for \<open>b\<close>; for the commit \<open>a\<close>, whose
  \<^verbatim>\<open>nextSha\<close> the cached log knows, the next command issues none.
\<close>

theorem fallback_query_options_witness:
  "trace (snd (nextCommand demo_Host demo_Lib 0 None None demo_World)) =
     [EvGetLog ''/repo'' \<lparr>maxCount = 1, reverse = Some True, ref = ''b''\<rparr>] \<and>
   trace (snd (nextCommand demo_Host demo_Lib 4 (Some demo_log) None demo_World)) = [] \<and>
   trace (snd (previousCommand demo_Host demo_Lib 0 None None demo_World)) =
     [EvGetLog ''/repo'' \<lparr>maxCount = 200, reverse = None, ref = ''b''\<rparr>]"
  using fallback_query_options
      [where H = demo_Host and L = demo_Lib and commit = 0 and repoLog = None
         and goBackCommand = None and w = demo_World]
    fallback_query_options
      [where H = demo_Host and L = demo_Lib and commit = 4 and repoLog = "Some demo_log"
         and goBackCommand = None and w = demo_World]
  by (simp add: demo_defs commits_get_def)

subsection \<open>What the fallbacks assign\<close>

text \<open>
  C9. In the fallback of the next command (the cached log cannot supply the next sha):
  when the first commit of the reverse query has the sha of the current commit, the
  callback returns \<open>KeyNoopCommand\<close> and leaves the store as the query handed it back, so
  \<^verbatim>\<open>nextSha\<close> of the current commit is not assigned. Whatever the query answers, the
  command returned by the fallback never navigates to the sha of the current commit.
\<close>

theorem nextCommand_never_targets_itself:
  fixes H L commit w repoLog goBackCommand
  defines "cached \<equiv> commits_get repoLog (GitLogCommit.sha (heap w commit))"
  defines "rp \<equiv> repoPath (heap w commit)"
    and "opts \<equiv> \<lparr>maxCount = 1, reverse = Some True, ref = GitLogCommit.sha (heap w commit)\<rparr>"
  defines "nq \<equiv> getLog H rp opts (emit (EvGetLog rp opts) w)"
  defines "r \<equiv> nextCommand H L commit repoLog goBackCommand w"
  assumes fallback: "cached = None \<or> (\<exists>a. cached = Some a \<and> nextSha (heap w a) = None)"
  shows
    "(\<forall>n. commits_first (fst nq) = Some n \<and>
          GitLogCommit.sha (snd nq n) = GitLogCommit.sha (snd nq commit) \<longrightarrow>
        r = (KeyNoopCommand, \<lparr>heap = snd nq, trace = trace w @ [EvGetLog rp opts]\<rparr>)) \<and>
     command_sha (fst r) \<noteq> Some (GitLogCommit.sha (heap (snd r) commit))"
proof -
  from fallback
  have c: "undefined_or nextSha (heap w) (commits_get repoLog (GitLogCommit.sha (heap w commit)))"
    by (simp add: undefined_or_iff cached_def)
  have q: "getLog H (repoPath (heap w commit))
      \<lparr>maxCount = 1, reverse = Some True, ref = GitLogCommit.sha (heap w commit)\<rparr>
      (emit (EvGetLog (repoPath (heap w commit))
      \<lparr>maxCount = 1, reverse = Some True, ref = GitLogCommit.sha (heap w commit)\<rparr>) w) = (fst nq, snd nq)"
    by (simp add: nq_def rp_def opts_def)
  show ?thesis
    using nextCommand_resolve_query [OF c q]
    by (auto simp: r_def nextCommand_def rp_def opts_def split: option.splits)
qed

text \<open>
  At the newest commit \<open>c\<close> the reverse query answers \<open>c\<close>: no-op, store unchanged. At
  \<open>b\<close> it answers \<open>c\<close>, and the command targets \<open>c\<close>, not \<open>b\<close>.
\<close>

theorem nextCommand_never_targets_itself_witness:
  "nextCommand demo_Host demo_Lib 2 None None demo_World =
     (KeyNoopCommand,
      \<lparr>heap = demo_heap,
       trace = [EvGetLog ''/repo'' \<lparr>maxCount = 1, reverse = Some True, ref = ''c''\<rparr>]\<rparr>) \<and>
   command_sha (fst (nextCommand demo_Host demo_Lib 0 None None demo_World)) = Some ''c'' \<and>
   GitLogCommit.sha (heap (snd (nextCommand demo_Host demo_Lib 0 None None demo_World)) 0) = ''b''"
proof -
  have f: "commits_get None (GitLogCommit.sha (heap demo_World k)) = None" for k
    by (simp add: commits_get_def)
  have "nextCommand demo_Host demo_Lib 2 None None demo_World =
     (KeyNoopCommand,
      \<lparr>heap = demo_heap,
       trace = [EvGetLog ''/repo'' \<lparr>maxCount = 1, reverse = Some True, ref = ''c''\<rparr>]\<rparr>)"
    using nextCommand_never_targets_itself
      [where H = demo_Host and L = demo_Lib and commit = 2 and repoLog = None
         and goBackCommand = None and w = demo_World, OF disjI1, OF f]
    by (simp add: demo_defs commits_first_def emit_def)
  moreover have "command_sha (fst (nextCommand demo_Host demo_Lib 0 None None demo_World)) = Some ''c''
    \<and> GitLogCommit.sha (heap (snd (nextCommand demo_Host demo_Lib 0 None None demo_World)) 0) = ''b''"
    by (simp add: nextCommand_def nextCommand_resolve_def call_getLog_def emit_def
        undefined_or_def commits_get_def commits_first_def demo_defs)
  ultimately show ?thesis by simp
qed

text \<open>
  C10. In the fallback of the previous command, when the fresh log holds the commit (at
  address \<open>a\<close>), the store after the callback is the store the query handed back with
  one change: \<^verbatim>\<open>nextSha\<close> of the fetched commit is \<^verbatim>\<open>nextSha\<close> of the original commit.
  All other fields of the fetched commit and all other objects are as the query left
  them, and the result is computed from the fetched commit after the assignment.
\<close>

theorem previousCommand_refetch_copies_nextSha:
  fixes H commit w repoLog
  defines "cached \<equiv> commits_get repoLog (GitLogCommit.sha (heap w commit))"
  defines "rp \<equiv> repoPath (heap w commit)"
    and "opts \<equiv>
      \<lparr>maxCount = maxListItems H, reverse = None, ref = GitLogCommit.sha (heap w commit)\<rparr>"
  assumes fallback: "cached = None \<or> (\<exists>a. cached = Some a \<and> previousSha (heap w a) = None)"
    and query: "getLog H rp opts (emit (EvGetLog rp opts) w) = (log, h)"
    and fetched: "commits_get log (GitLogCommit.sha (h commit)) = Some a"
  shows
    "heap (snd (previousCommand H L commit repoLog goBackCommand w)) =
       h(a := (h a)\<lparr>nextSha := nextSha (h commit)\<rparr>) \<and>
     fst (previousCommand H L commit repoLog goBackCommand w) =
       (case previousSha (h a) of
          None \<Rightarrow> KeyNoopCommand
        | Some p \<Rightarrow>
            ItemCommand
              (KeyCommandQuickPickItem ShowQuickCommitDetails
                 [UriArg (previousUri L ((h a)\<lparr>nextSha := nextSha (h commit)\<rparr>)),
                  ShowQuickCommitDetailsCommandArgs None log (Some p) goBackCommand]))"
proof -
  from fallback
  have c: "undefined_or previousSha (heap w) (commits_get repoLog (GitLogCommit.sha (heap w commit)))"
    by (simp add: undefined_or_iff cached_def)
  show ?thesis
    using previousCommand_resolve_query [OF c query [unfolded rp_def opts_def]] fetched
    by (simp add: previousCommand_def split: option.splits)
qed

text \<open>
  The caller's \<open>b\<close> knows its next sha \<open>c\<close>; the fetched \<open>b\<close> at address 1 receives it and
  keeps its previous sha \<open>a\<close>, the target of the command.
\<close>

theorem previousCommand_refetch_copies_nextSha_witness:
  "heap (snd (previousCommand demo_Host demo_Lib 0 None None
       (demo_World\<lparr>heap := demo_heap(0 := demo_commit\<lparr>nextSha := Some ''c''\<rparr>)\<rparr>))) 1 =
     (demo_heap 1)\<lparr>nextSha := Some ''c''\<rparr> \<and>
   command_sha (fst (previousCommand demo_Host demo_Lib 0 None None
       (demo_World\<lparr>heap := demo_heap(0 := demo_commit\<lparr>nextSha := Some ''c''\<rparr>)\<rparr>))) = Some ''a''"
proof -
  let ?w = "demo_World\<lparr>heap := demo_heap(0 := demo_commit\<lparr>nextSha := Some ''c''\<rparr>)\<rparr>"
  have f: "commits_get None (GitLogCommit.sha (heap ?w 0)) = None"
    by (simp add: commits_get_def)
  have q: "getLog demo_Host (repoPath (heap ?w 0))
      \<lparr>maxCount = maxListItems demo_Host, reverse = None, ref = GitLogCommit.sha (heap ?w 0)\<rparr>
      (emit (EvGetLog (repoPath (heap ?w 0))
         \<lparr>maxCount = maxListItems demo_Host, reverse = None, ref = GitLogCommit.sha (heap ?w 0)\<rparr>) ?w)
       = (Some demo_log, heap ?w)"
    by (simp add: demo_Host_def demo_World_def demo_heap_def demo_commit_def emit_def)
  have g: "commits_get (Some demo_log) (GitLogCommit.sha (heap ?w 0)) = Some 1"
    by (simp add: commits_get_def demo_defs)
  show ?thesis
    using previousCommand_refetch_copies_nextSha [OF disjI1, OF f q g, of demo_Lib None]
    by (simp add: demo_World_def demo_heap_def demo_commit_def)
qed

subsection \<open>What \<^verbatim>\<open>show\<close> passes to the host\<close>

lemma heap_emit [simp]: "heap (emit e w) = heap w"
  by (simp add: emit_def)

lemma trace_emit [simp]: "trace (emit e w) = trace w @ [e]"
  by (simp add: emit_def)

lemma show_head_items_world:
  "snd (show_head_items H L stash commit currentCommand st w) =
     (if stash then w else emit (EvGetRemotes (repoPath (heap w commit))) w)"
  by (simp add: show_head_items_def call_getRemotes_def Let_def case_prod_beta)

lemma show_items_world:
  "snd (show_items H L commit uri goBackCommand currentCommand repoLog w) =
     (if isStash (heap w commit) then w else emit (EvGetRemotes (repoPath (heap w commit))) w)"
  by (simp add: show_items_def show_commit_items_def Let_def case_prod_beta show_head_items_world)

lemma show_open_heap:
  "heap (call_world (show_open H L commit uri goBackCommand currentCommand repoLog w)) =
     resolvePreviousFileSha H commit (emit (EvResolvePreviousFileSha commit) w)"
  by (simp add: show_open_def Let_def case_prod_beta show_items_world)

lemma show_open_keys:
  fixes H L commit uri goBackCommand currentCommand repoLog w
  defines "r \<equiv> show_open H L commit uri goBackCommand currentCommand repoLog w"
  defines "h \<equiv> heap (call_world r)"
  shows "call_keys r =
     [(left, map_option Static goBackCommand),
      (comma, fst (show_commands L (isStash (h commit)) commit repoLog goBackCommand h)),
      (period, snd (show_commands L (isStash (h commit)) commit repoLog goBackCommand h))]"
  unfolding h_def r_def show_open_heap
  by (simp add: show_open_def Let_def case_prod_beta show_items_world)

lemma show_open_trace:
  fixes H L commit uri goBackCommand currentCommand repoLog w
  defines "r \<equiv> show_open H L commit uri goBackCommand currentCommand repoLog w"
  defines "c \<equiv> heap (call_world r) commit"
  shows "trace (call_world r) =
     trace w @ [EvResolvePreviousFileSha commit]
       @ (if isStash c then [] else [EvGetRemotes (repoPath c)])
       @ [EvBeginScope (call_keys r), EvShowQuickPick (call_items r) (call_options r)]"
  unfolding c_def r_def show_open_heap
  by (simp add: show_open_def Let_def case_prod_beta show_items_world)

lemma fold_onDidSelectItem:
  "trace (fold (onDidSelectItem H) moved w) =
     trace w @ concat (map (onDidSelectItem_events H) moved)"
  by (induction moved arbitrary: w)
    (simp_all add: onDidSelectItem_def onDidSelectItem_events_def Let_def)


lemma show_head_items_list:
  "fst (show_head_items H L stash commit currentCommand (rest, 0) w) =
     ((if stash then
         [CommandQuickPickItem ''$(git-pull-request) Apply Stashed Changes''
            (pad L (Dash L) 2 3 @ '' '' @ getShortMessage L (heap w commit))
            StashApply [StashApplyCommandArgs True False commit currentCommand],
          CommandQuickPickItem ''$(x) Delete Stashed Changes''
            (pad L (Dash L) 2 3 @ '' '' @ getShortMessage L (heap w commit))
            StashDelete [StashDeleteCommandArgs True commit currentCommand],
          ShowCommitInViewQuickPickItem commit]
       else
         ShowCommitInViewQuickPickItem commit #
         (let remotes = getRemotes H (repoPath (heap w commit))
                          (emit (EvGetRemotes (repoPath (heap w commit))) w)
          in if remotes \<noteq> [] then
               [OpenRemotesCommandQuickPickItem remotes (GitLogCommit.sha (heap w commit))
                  currentCommand]
             else [])) @ rest,
      if stash then 3
      else if getRemotes H (repoPath (heap w commit))
                (emit (EvGetRemotes (repoPath (heap w commit))) w) \<noteq> [] then 2 else 1)"
  by (simp add: show_head_items_def call_getRemotes_def Let_def splice_next_def splice0_def)


lemma show_tail_items_list:
  "fst (show_tail_items L stash commit uri goBackCommand repoLog c (pre @ rest, length pre)) =
     pre @
     [new_OpenCommitFilesCommandQuickPickItem L c None,
      new_OpenCommitFileRevisionsCommandQuickPickItem L c None,
      CommandQuickPickItem ''$(git-compare) Open Directory Compare with Previous Revision''
        (pad L (Dash L) 2 3 @ '' $(git-commit) '' @ previousFileShortSha L c @ '' '' @ Space L
           @ '' $(git-compare) '' @ Space L @ '' $(git-commit) '' @ shortSha L c)
        DiffDirectory
        [UriArg (commitUri L c),
         DiffDirectoryCommandArgs (Some (previousFileSha c)) (Some (GitLogCommit.sha c))],
      CommandQuickPickItem ''$(git-compare) Open Directory Compare with Working Tree''
        (pad L (Dash L) 2 3 @ '' $(git-commit) '' @ shortSha L c @ '' '' @ Space L
           @ '' $(git-compare) '' @ Space L @ '' $(file-directory) Working Tree'')
        DiffDirectory
        [UriArg uri, DiffDirectoryCommandArgs (Some (GitLogCommit.sha c)) None]] @
     (if \<not> stash then
        [CommandQuickPickItem ''$(clippy) Copy Commit ID to Clipboard''
           (pad L (Dash L) 2 3 @ '' '' @ shortSha L c)
           CopyShaToClipboard
           [UriArg uri, CopyShaToClipboardCommandArgs (GitLogCommit.sha c)]]
      else []) @
     [CommandQuickPickItem ''$(clippy) Copy Commit Message to Clipboard''
        (pad L (Dash L) 2 3 @ '' '' @ getShortMessage L c)
        CopyMessageToClipboard
        [UriArg uri, CopyMessageToClipboardCommandArgs (message c) (GitLogCommit.sha c)],
      CommandQuickPickItem ''Changed Files''
        (getFormattedDiffStatus L c)
        ShowQuickCommitDetails
        [UriArg uri,
         ShowQuickCommitDetailsCommandArgs (Some commit) repoLog (Some (GitLogCommit.sha c))
           goBackCommand]] @
     rest"
  by (simp add: show_tail_items_def Let_def splice_next_def splice0_def)

lemma show_head_items_shape:
  "\<exists>pre. show_head_items H L stash commit currentCommand (rest, 0) w =
            ((pre @ rest, length pre), snd (show_head_items H L stash commit currentCommand (rest, 0) w)) \<and>
         (Some StashApply \<in> item_command ` set pre \<longleftrightarrow> stash) \<and>
         (Some StashDelete \<in> item_command ` set pre \<longleftrightarrow> stash) \<and>
         item_command ` set pre \<subseteq> {None, Some StashApply, Some StashDelete}"
  by (simp add: show_head_items_def call_getRemotes_def Let_def splice_next_def splice0_def)


lemma item_command_file_item [simp]:
  "item_command (new_CommitWithFileStatusQuickPickItem L c f) = None"
  by (simp add: new_CommitWithFileStatusQuickPickItem_def Let_def)

lemma is_OpenCommitFiles_new [simp]:
  "is_OpenCommitFiles (new_OpenCommitFilesCommandQuickPickItem L c item)"
  by (simp add: new_OpenCommitFilesCommandQuickPickItem_def Let_def case_prod_beta)

lemma is_OpenCommitFileRevisions_new [simp]:
  "is_OpenCommitFileRevisions (new_OpenCommitFileRevisionsCommandQuickPickItem L c item)"
  by (simp add: new_OpenCommitFileRevisionsCommandQuickPickItem_def Let_def case_prod_beta)

lemma item_command_new [simp]:
  "item_command (new_OpenCommitFilesCommandQuickPickItem L c item) = None"
  "item_command (new_OpenCommitFileRevisionsCommandQuickPickItem L c item) = None"
  by (simp_all add: new_OpenCommitFilesCommandQuickPickItem_def
      new_OpenCommitFileRevisionsCommandQuickPickItem_def Let_def case_prod_beta)

lemma show_commit_items_kinds:
  fixes H L commit uri goBackCommand currentCommand repoLog w
  defines "built \<equiv> fst (show_commit_items H L commit uri goBackCommand currentCommand repoLog w)"
  defines "cmds \<equiv> item_command ` set built"
  shows "(Some StashApply \<in> cmds \<longleftrightarrow> isStash (heap w commit)) \<and>
         (Some StashDelete \<in> cmds \<longleftrightarrow> isStash (heap w commit)) \<and>
         (Some CopyShaToClipboard \<in> cmds \<longleftrightarrow> \<not> isStash (heap w commit)) \<and>
         (\<exists>x \<in> set built. is_OpenCommitFiles x) \<and>
         (\<exists>x \<in> set built. is_OpenCommitFileRevisions x) \<and>
         Some DiffDirectory \<in> cmds \<and>
         Some CopyMessageToClipboard \<in> cmds \<and>
         Some ShowQuickCommitDetails \<in> cmds"
proof -
  let ?fs = "map (new_CommitWithFileStatusQuickPickItem L (heap w commit)) (files (heap w commit))"
  let ?stash = "isStash (heap w commit)"
  obtain pre w' where
    head: "show_head_items H L ?stash commit currentCommand (?fs, 0) w = ((pre @ ?fs, length pre), w')"
    and has_apply: "Some StashApply \<in> item_command ` set pre \<longleftrightarrow> ?stash"
    and has_delete: "Some StashDelete \<in> item_command ` set pre \<longleftrightarrow> ?stash"
    and others: "item_command ` set pre \<subseteq> {None, Some StashApply, Some StashDelete}"
    using show_head_items_shape [of H L ?stash commit currentCommand ?fs w] by blast
  have built: "built =
      fst (show_tail_items L ?stash commit uri goBackCommand repoLog (heap w' commit)
             (pre @ ?fs, length pre))"
    by (simp add: built_def show_commit_items_def Let_def head)
  show ?thesis
    unfolding cmds_def built show_tail_items_list
    using has_apply has_delete others
    by (auto simp: image_Un)
qed

lemma show_open_items:
  "call_items (show_open H L commit uri goBackCommand currentCommand repoLog w) =
     (case goBackCommand of None \<Rightarrow> [] | Some g \<Rightarrow> [g]) @
     fst (show_commit_items H L commit uri goBackCommand currentCommand repoLog
            ((emit (EvResolvePreviousFileSha commit) w)
               \<lparr>heap := resolvePreviousFileSha H commit (emit (EvResolvePreviousFileSha commit) w)\<rparr>))"
  by (simp add: show_open_def show_items_def splice0_def Let_def case_prod_beta
      split: option.splits)

lemma selection_events:
  "list_all selection_event (concat (map (onDidSelectItem_events H) moved))"
  by (induction moved) (simp_all add: onDidSelectItem_events_def)

lemma show_eq:
  fixes H L commit uri goBackCommand currentCommand repoLog w
  defines "r \<equiv> show_open H L commit uri goBackCommand currentCommand repoLog w"
  defines "answer \<equiv> showQuickPick H (call_items r) (call_options r) (call_world r)"
  shows "show H L commit uri goBackCommand currentCommand repoLog w =
     (snd answer, emit EvScopeDispose (fold (onDidSelectItem H) (fst answer) (call_world r)))"
  by (simp add: show_def Let_def case_prod_beta r_def answer_def)

subsection \<open>The items of the picker\<close>

text \<open>
  C5. The list passed to the picker starts with the go-back command of the caller, when
  there is one; the rest are the items \<^verbatim>\<open>show\<close> builds for the commit. Among the built items
  there is a \<open>StashApply\<close> and a \<open>StashDelete\<close> command item exactly when the commit is a
  stash, and a \<open>CopyShaToClipboard\<close> command item exactly when it is not; there always
  are the open-files and open-revisions items, the \<open>DiffDirectory\<close> command items, the
  \<open>CopyMessageToClipboard\<close> item and the \<open>ShowQuickCommitDetails\<close> item (changed files).
  The commit is read after \<^verbatim>\<open>resolvePreviousFileSha\<close>, as the code does.
\<close>

theorem show_items_by_kind:
  fixes H L commit uri goBackCommand currentCommand repoLog w
  defines "r \<equiv> show_open H L commit uri goBackCommand currentCommand repoLog w"
  defines "stash \<equiv> isStash (heap (call_world r) commit)"
  defines "n \<equiv> (case goBackCommand of None \<Rightarrow> 0 | Some g \<Rightarrow> 1)"
  defines "built \<equiv> drop n (call_items r)"
  defines "cmds \<equiv> item_command ` set built"
  shows "take n (call_items r) = (case goBackCommand of None \<Rightarrow> [] | Some g \<Rightarrow> [g]) \<and>
         (Some StashApply \<in> cmds \<longleftrightarrow> stash) \<and>
         (Some StashDelete \<in> cmds \<longleftrightarrow> stash) \<and>
         (Some CopyShaToClipboard \<in> cmds \<longleftrightarrow> \<not> stash) \<and>
         (\<exists>x \<in> set built. is_OpenCommitFiles x) \<and>
         (\<exists>x \<in> set built. is_OpenCommitFileRevisions x) \<and>
         Some DiffDirectory \<in> cmds \<and>
         Some CopyMessageToClipboard \<in> cmds \<and>
         Some ShowQuickCommitDetails \<in> cmds"
proof -
  let ?w1 = "(emit (EvResolvePreviousFileSha commit) w)
     \<lparr>heap := resolvePreviousFileSha H commit (emit (EvResolvePreviousFileSha commit) w)\<rparr>"
  have built: "built = fst (show_commit_items H L commit uri goBackCommand currentCommand repoLog ?w1)"
    by (simp add: built_def n_def r_def show_open_items split: option.splits)
  have stash: "stash = isStash (heap ?w1 commit)"
    by (simp add: stash_def r_def show_open_heap)
  have "take n (call_items r) = (case goBackCommand of None \<Rightarrow> [] | Some g \<Rightarrow> [g])"
    by (simp add: n_def r_def show_open_items split: option.splits)
  then show ?thesis
    unfolding cmds_def built stash
    using show_commit_items_kinds [of H L commit uri goBackCommand currentCommand repoLog ?w1]
    by blast
qed

text \<open>
  The stash \<open>s\<close> at address 3, shown with a go-back command, and the commit \<open>b\<close> at
  address 0, shown without one.
\<close>

theorem show_items_by_kind_witness:
  "take 1 (call_items (show_open demo_Host demo_Lib 3 ''u'' (Some demo_goBack) None None
      demo_World)) = [demo_goBack] \<and>
   Some StashApply \<in> item_command ` set
     (drop 1 (call_items (show_open demo_Host demo_Lib 3 ''u'' (Some demo_goBack) None None
        demo_World))) \<and>
   Some CopyShaToClipboard \<notin> item_command ` set
     (drop 1 (call_items (show_open demo_Host demo_Lib 3 ''u'' (Some demo_goBack) None None
        demo_World))) \<and>
   Some StashApply \<notin> item_command ` set
     (call_items (show_open demo_Host demo_Lib 0 ''u'' None None None demo_World)) \<and>
   Some CopyShaToClipboard \<in> item_command ` set
     (call_items (show_open demo_Host demo_Lib 0 ''u'' None None None demo_World))"
  using
    show_items_by_kind
      [where H = demo_Host and L = demo_Lib and commit = 3 and uri = "''u''"
         and goBackCommand = "Some demo_goBack" and currentCommand = None and repoLog = None
         and w = demo_World]
    show_items_by_kind
      [where H = demo_Host and L = demo_Lib and commit = 0 and uri = "''u''"
         and goBackCommand = None and currentCommand = None and repoLog = None
         and w = demo_World]
  by (simp add: show_open_heap demo_defs)

subsection \<open>The keys of the scope\<close>

text \<open>
  C3. For a commit that is not a stash. When the log is defined, not truncated and has
  no sha (the full history), the keys \<^verbatim>\<open>,\<close> and \<^verbatim>\<open>.\<close> are bound to static commands,
  never to callbacks: \<^verbatim>\<open>,\<close> navigates to \<^verbatim>\<open>previousSha\<close> and is unbound exactly when
  the commit has no \<^verbatim>\<open>previousSha\<close>, and the same for \<^verbatim>\<open>.\<close> and \<^verbatim>\<open>nextSha\<close>.
  Otherwise, that is for any other log of such a commit, both keys are bound to the
  two asynchronous callbacks, which capture the commit, the log and the go-back command.
\<close>

theorem show_full_history_static_commands:
  fixes H L commit uri goBackCommand currentCommand repoLog w
  defines "r \<equiv> show_open H L commit uri goBackCommand currentCommand repoLog w"
  defines "c \<equiv> heap (call_world r) commit"
  defines "full \<equiv> (\<exists>l. repoLog = Some l \<and> \<not> truncated l \<and> GitLog.sha l = None)"
  assumes "\<not> isStash c"
  shows
    "(full \<longrightarrow>
        key_binding (call_keys r) comma =
          (case previousSha c of
             None \<Rightarrow> None
           | Some p \<Rightarrow>
               Some (Static (KeyCommandQuickPickItem ShowQuickCommitDetails
                 [UriArg (previousUri L c),
                  ShowQuickCommitDetailsCommandArgs None repoLog (Some p) goBackCommand]))) \<and>
        key_binding (call_keys r) period =
          (case nextSha c of
             None \<Rightarrow> None
           | Some n \<Rightarrow>
               Some (Static (KeyCommandQuickPickItem ShowQuickCommitDetails
                 [UriArg (nextUri L c),
                  ShowQuickCommitDetailsCommandArgs None repoLog (Some n) goBackCommand]))) \<and>
        (key_binding (call_keys r) comma = None \<longleftrightarrow> previousSha c = None) \<and>
        (key_binding (call_keys r) period = None \<longleftrightarrow> nextSha c = None)) \<and>
     (\<not> full \<longrightarrow>
        key_binding (call_keys r) comma = Some (PreviousCallback commit repoLog goBackCommand) \<and>
        key_binding (call_keys r) period = Some (NextCallback commit repoLog goBackCommand))"
proof -
  have full: "full = fullHistory repoLog"
    by (simp add: full_def fullHistory_def split: option.splits)
  show ?thesis
    using assms(4)
    unfolding full c_def r_def show_open_keys
    by (simp add: key_binding_def show_commands_def Let_def split: option.splits)
qed

text \<open>
  The fetched \<open>b\<close> (previous sha \<open>a\<close>, no next sha) with a full-history log, and with a
  log that has a sha.
\<close>

theorem show_full_history_static_commands_witness:
  "key_binding (call_keys (show_open demo_Host demo_Lib 1 ''u'' None None
      (Some (demo_log\<lparr>GitLog.sha := None\<rparr>)) demo_World)) comma =
     Some (Static (KeyCommandQuickPickItem ShowQuickCommitDetails
       [UriArg ''/repo'',
        ShowQuickCommitDetailsCommandArgs None (Some (demo_log\<lparr>GitLog.sha := None\<rparr>))
          (Some ''a'') None])) \<and>
   key_binding (call_keys (show_open demo_Host demo_Lib 1 ''u'' None None
      (Some (demo_log\<lparr>GitLog.sha := None\<rparr>)) demo_World)) period = None \<and>
   key_binding (call_keys (show_open demo_Host demo_Lib 1 ''u'' None None
      (Some demo_log) demo_World)) comma = Some (PreviousCallback 1 (Some demo_log) None) \<and>
   key_binding (call_keys (show_open demo_Host demo_Lib 1 ''u'' None None
      (Some demo_log) demo_World)) period = Some (NextCallback 1 (Some demo_log) None)"
proof -
  have n: "\<not> isStash (heap (call_world (show_open demo_Host demo_Lib 1 ''u'' None None rl demo_World)) 1)"
    for rl
    by (simp add: show_open_heap demo_defs)
  show ?thesis
    using
      show_full_history_static_commands
        [where H = demo_Host and L = demo_Lib and commit = 1 and uri = "''u''"
           and goBackCommand = None and currentCommand = None and w = demo_World
           and repoLog = "Some (demo_log\<lparr>GitLog.sha := None\<rparr>)", OF n]
      show_full_history_static_commands
        [where H = demo_Host and L = demo_Lib and commit = 1 and uri = "''u''"
           and goBackCommand = None and currentCommand = None and w = demo_World
           and repoLog = "Some demo_log", OF n]
    by (simp add: show_open_heap demo_defs)
qed

text \<open>
  C8. For a stash both \<^verbatim>\<open>,\<close> and \<^verbatim>\<open>.\<close> are unbound in the mapping of the scope,
  whatever the log is: navigation to the previous or next commit is only set up for a
  commit that is not a stash.
\<close>

theorem show_stash_has_no_navigation:
  fixes H L commit uri goBackCommand currentCommand repoLog w
  defines "r \<equiv> show_open H L commit uri goBackCommand currentCommand repoLog w"
  assumes "isStash (heap (call_world r) commit)"
  shows "key_binding (call_keys r) comma = None \<and> key_binding (call_keys r) period = None"
  using assms(2)
  unfolding r_def show_open_keys
  by (simp add: key_binding_def show_commands_def)

text \<open>The stash at address 3, even with a full-history log.\<close>

theorem show_stash_has_no_navigation_witness:
  "key_binding (call_keys (show_open demo_Host demo_Lib 3 ''u'' None None
      (Some (demo_log\<lparr>GitLog.sha := None\<rparr>)) demo_World)) comma = None \<and>
   key_binding (call_keys (show_open demo_Host demo_Lib 3 ''u'' None None
      (Some (demo_log\<lparr>GitLog.sha := None\<rparr>)) demo_World)) period = None"
proof -
  have st: "isStash (heap (call_world (show_open demo_Host demo_Lib 3 ''u'' None None
      (Some (demo_log\<lparr>GitLog.sha := None\<rparr>)) demo_World)) 3)"
    by (simp add: show_open_heap demo_defs)
  show ?thesis
    using show_stash_has_no_navigation [OF st] .
qed

subsection \<open>The picker session\<close>

text \<open>
  C4. \<^verbatim>\<open>show\<close> returns what the picker of the host answered for the items and options
  it was called with: the picked item, or \<^verbatim>\<open>undefined\<close> (\<open>None\<close>) when the picker was
  dismissed. There is no other result.
\<close>

theorem show_returns_the_pick:
  fixes H L commit uri goBackCommand currentCommand repoLog w
  defines "r \<equiv> show_open H L commit uri goBackCommand currentCommand repoLog w"
  shows "fst (show H L commit uri goBackCommand currentCommand repoLog w) =
           snd (showQuickPick H (call_items r) (call_options r) (call_world r))"
  by (simp add: show_eq r_def)

text \<open>A host whose user picks the first item, and one whose user dismisses the picker.\<close>

theorem show_returns_the_pick_witness:
  "fst (show demo_Host demo_Lib 0 ''u'' None None None demo_World) =
     Some (ShowCommitInViewQuickPickItem 0) \<and>
   fst (show (demo_Host\<lparr>showQuickPick := \<lambda>its opts w. ([], None)\<rparr>) demo_Lib 0 ''u'' None None None
     demo_World) = None"
  using show_returns_the_pick [of demo_Host demo_Lib 0 "''u''" None None None demo_World]
    show_returns_the_pick [of "demo_Host\<lparr>showQuickPick := \<lambda>its opts w. ([], None)\<rparr>"
      demo_Lib 0 "''u''" None None None demo_World]
  by (simp add: show_open_items show_commit_items_def show_head_items_def show_tail_items_def
      call_getRemotes_def splice_next_def splice0_def Let_def demo_defs)

text \<open>
  C6. The events of one run of \<^verbatim>\<open>show\<close>, in order: the preparation
  (\<^verbatim>\<open>resolvePreviousFileSha\<close>, and the remotes of a commit that is not a stash), the
  begin of the scope, the call of the picker, the events of the selections made while
  the picker is open, and the disposal of the scope as the last event. The scope is
  begun with \<^verbatim>\<open>left\<close> bound to the go-back command, and the only key whose command
  is set during the session is \<^verbatim>\<open>right\<close>.
\<close>

theorem show_scope_brackets_the_picker:
  fixes H L commit uri goBackCommand currentCommand repoLog w
  defines "r \<equiv> show_open H L commit uri goBackCommand currentCommand repoLog w"
  defines "c \<equiv> heap (call_world r) commit"
  defines "session \<equiv>
    concat (map (onDidSelectItem_events H)
      (fst (showQuickPick H (call_items r) (call_options r) (call_world r))))"
  shows
    "trace (snd (show H L commit uri goBackCommand currentCommand repoLog w)) =
       trace w @ [EvResolvePreviousFileSha commit]
         @ (if isStash c then [] else [EvGetRemotes (repoPath c)])
         @ [EvBeginScope (call_keys r), EvShowQuickPick (call_items r) (call_options r)]
         @ session @ [EvScopeDispose] \<and>
     list_all selection_event session \<and>
     key_binding (call_keys r) left = map_option Static goBackCommand"
proof -
  have "trace (snd (show H L commit uri goBackCommand currentCommand repoLog w)) =
      trace (call_world r) @ session @ [EvScopeDispose]"
    by (simp add: show_eq r_def session_def fold_onDidSelectItem)
  moreover have "key_binding (call_keys r) left = map_option Static goBackCommand"
    unfolding r_def show_open_keys by (simp add: key_binding_def)
  ultimately show ?thesis
    unfolding session_def c_def r_def show_open_trace
    using selection_events by simp
qed

text \<open>The stash with a go-back command; the user moves to the first item.\<close>

theorem show_scope_brackets_the_picker_witness:
  "trace (snd (show demo_Host demo_Lib 3 ''u'' (Some (demo_goBack)) None None
      demo_World)) =
     [EvResolvePreviousFileSha 3,
      EvBeginScope
        (call_keys (show_open demo_Host demo_Lib 3 ''u'' (Some (demo_goBack))
           None None demo_World)),
      EvShowQuickPick
        (call_items (show_open demo_Host demo_Lib 3 ''u'' (Some (demo_goBack))
           None None demo_World))
        (call_options (show_open demo_Host demo_Lib 3 ''u'' (Some (demo_goBack))
           None None demo_World)),
      EvSetKeyCommand right (demo_goBack),
      EvScopeDispose] \<and>
   key_binding
     (call_keys (show_open demo_Host demo_Lib 3 ''u'' (Some (demo_goBack))
        None None demo_World)) left = Some (Static (demo_goBack))"
  using show_scope_brackets_the_picker
    [of demo_Host demo_Lib 3 "''u''" "Some (demo_goBack)" None None demo_World]
  by (simp add: show_open_heap show_open_items onDidSelectItem_events_def demo_defs)

end
